theory Spec2Isabelle
  imports Complex_Main
begin

section \<open>History manager (hooks/useHistory.ts)\<close>

text \<open>
  The hook keeps one value of type \<open>HistoryState\<close> and replaces it through
  functional updates; each update is modelled as a function from the current
  history to the next one.
\<close>

record 'a HistoryState =
  past :: "'a list"
  present :: 'a
  future :: "'a list"

definition MAX_HISTORY_LENGTH :: nat where
  "MAX_HISTORY_LENGTH = 100"

definition setState :: "'a \<Rightarrow> bool \<Rightarrow> 'a HistoryState \<Rightarrow> 'a HistoryState" where
  "setState newState skipHistory current =
     (if skipHistory then current\<lparr>present := newState\<rparr>
      else
        let newPast = past current @ [present current];
            newPast = (if length newPast > MAX_HISTORY_LENGTH then tl newPast else newPast)
        in \<lparr>past = newPast, present = newState, future = []\<rparr>)"

definition undo :: "'a HistoryState \<Rightarrow> 'a HistoryState" where
  "undo current =
     (if length (past current) = 0 then current
      else \<lparr>past = butlast (past current),
            present = last (past current),
            future = present current # future current\<rparr>)"

definition redo :: "'a HistoryState \<Rightarrow> 'a HistoryState" where
  "redo current =
     (case future current of
        [] \<Rightarrow> current
      | newPresent # newFuture \<Rightarrow>
          \<lparr>past = past current @ [present current],
           present = newPresent,
           future = newFuture\<rparr>)"

definition reset :: "'a \<Rightarrow> 'a HistoryState \<Rightarrow> 'a HistoryState" where
  "reset newInitialState current = \<lparr>past = [], present = newInitialState, future = []\<rparr>"

text \<open>A run of non-skipped \<open>setState\<close> calls, one per value of the list, in order.\<close>

definition setStates :: "'a list \<Rightarrow> 'a HistoryState \<Rightarrow> 'a HistoryState" where
  "setStates vs h = fold (\<lambda>v. setState v False) vs h"

section \<open>Scene model (App.tsx)\<close>

text \<open>
  JavaScript numbers are modelled as real numbers: rounding, infinities and NaN of
  the floating-point type are outside the model. A property that may be absent
  (\<open>undefined\<close>) is an \<open>option\<close>. \<open>AnyShape\<close> is a union discriminated by
  \<open>type\<close>; the kind-specific fields are the payload of a shape, and the
  discriminator is read off the payload.
\<close>

datatype ShapeType = Rect | Circle | Line | Arrow | Text | Image | Group

datatype TextAlign = AlignLeft | AlignCenter | AlignRight

datatype Payload =
    RectShape real real "real option"
      \<comment> \<open>width, height, cornerRadius\<close>
  | CircleShape real
      \<comment> \<open>radius\<close>
  | LineShape "real list" "real option" "bool option"
      \<comment> \<open>points, tension, closed\<close>
  | ArrowShape "real list" "real option" "real option"
      \<comment> \<open>points, pointerLength, pointerWidth\<close>
  | TextShape string "real option" "real option" "TextAlign option"
      \<comment> \<open>text, fontSize, width, align\<close>
  | ImageShape string "real option" "real option"
      \<comment> \<open>src, width, height\<close>
  | GroupShape "string list" "real option" "real option"
      \<comment> \<open>children, width, height\<close>

record shape =
  sid :: string
  x :: real
  y :: real
  rotation :: "real option"
  fill :: "string option"
  stroke :: "string option"
  strokeWidth :: "real option"
  draggable :: "bool option"
  opacity :: "real option"
  name :: "string option"
  groupId :: "string option"
  payload :: Payload

fun shapeType :: "Payload \<Rightarrow> ShapeType" where
  "shapeType (RectShape _ _ _) = Rect"
| "shapeType (CircleShape _) = Circle"
| "shapeType (LineShape _ _ _) = Line"
| "shapeType (ArrowShape _ _ _) = Arrow"
| "shapeType (TextShape _ _ _ _) = Text"
| "shapeType (ImageShape _ _ _) = Image"
| "shapeType (GroupShape _ _ _) = Group"

text \<open>The reads \<open>(s as any).width\<close> and \<open>(s as any).height\<close>.\<close>

fun widthOf :: "Payload \<Rightarrow> real option" where
  "widthOf (RectShape w _ _) = Some w"
| "widthOf (TextShape _ _ w _) = w"
| "widthOf (ImageShape _ w _) = w"
| "widthOf (GroupShape _ w _) = w"
| "widthOf _ = None"

fun heightOf :: "Payload \<Rightarrow> real option" where
  "heightOf (RectShape _ h _) = Some h"
| "heightOf (ImageShape _ _ h) = h"
| "heightOf (GroupShape _ _ h) = h"
| "heightOf _ = None"

text \<open>\<open>v || d\<close> on an optional number: \<open>undefined\<close> and \<open>0\<close> are falsy.\<close>

fun numOr :: "real option \<Rightarrow> real \<Rightarrow> real" where
  "numOr None d = d"
| "numOr (Some v) d = (if v = 0 then d else v)"

text \<open>Truthiness of an optional number.\<close>

fun truthyNum :: "real option \<Rightarrow> bool" where
  "truthyNum None = False"
| "truthyNum (Some v) = (v \<noteq> 0)"

text \<open>Truthiness of an optional string: \<open>undefined\<close> and the empty string are falsy.\<close>

fun truthyStr :: "string option \<Rightarrow> bool" where
  "truthyStr None = False"
| "truthyStr (Some s) = (s \<noteq> [])"

record Connector =
  cid :: string
  fromId :: string
  toId :: string
  cpoints :: "real list"
  cstroke :: "string option"
  cstrokeWidth :: "real option"

record CanvasState =
  shapes :: "shape list"
  connectors :: "Connector list"

text \<open>
  The hook is instantiated at \<open>CanvasState\<close>, but \<open>setShapes\<close> and
  \<open>setConnectors\<close> pass its \<open>setState\<close> an arrow function, and \<open>setState\<close> stores
  what it is given as the new present without calling it. So the value held as
  present is a canvas or such a stored function.
\<close>

datatype Stored = Canvas CanvasState | Updater "CanvasState \<Rightarrow> CanvasState"

text \<open>
  The editing operations read and write three cells of the component's state: the
  history, the selection and the stage size (width, height).
\<close>

record Editor =
  history :: "Stored HistoryState"
  selectedIds :: "string list"
  stageSize :: "real \<times> real"

text \<open>
  \<open>const shapes = canvasState.shapes\<close>: the shape list of a canvas, and
  \<open>undefined\<close> (\<open>None\<close>) when the present is a stored function.
\<close>

definition shapesOf :: "Editor \<Rightarrow> shape list option" where
  "shapesOf ed =
     (case present (history ed) of Canvas c \<Rightarrow> Some (shapes c) | Updater _ \<Rightarrow> None)"

text \<open>
  \<open>setShapes\<close> and \<open>setConnectors\<close>, called with a function as every operation
  below does: the arrow function \<open>prev => ({ ...prev, shapes: updater(prev.shapes) })\<close>
  goes to \<open>setState\<close> as the new state.
\<close>

definition setShapes :: "(shape list \<Rightarrow> shape list) \<Rightarrow> bool \<Rightarrow> Editor \<Rightarrow> Editor" where
  "setShapes updater skipHistory ed =
     ed\<lparr>history :=
          setState (Updater (\<lambda>prev. prev\<lparr>shapes := updater (shapes prev)\<rparr>))
            skipHistory (history ed)\<rparr>"

definition setConnectors :: "(Connector list \<Rightarrow> Connector list) \<Rightarrow> bool \<Rightarrow> Editor \<Rightarrow> Editor" where
  "setConnectors updater skipHistory ed =
     ed\<lparr>history :=
          setState (Updater (\<lambda>prev. prev\<lparr>connectors := updater (connectors prev)\<rparr>))
            skipHistory (history ed)\<rparr>"

subsection \<open>Bounding boxes and connector routing\<close>

record BBox =
  box_x :: real
  box_y :: real
  box_w :: real
  box_h :: real

definition getBBox :: "shape \<Rightarrow> BBox" where
  "getBBox s =
     (case payload s of
        CircleShape r \<Rightarrow> \<lparr>box_x = x s - r, box_y = y s - r, box_w = r * 2, box_h = r * 2\<rparr>
      | _ \<Rightarrow>
          (let w = numOr (widthOf (payload s)) 0;
               h = numOr (heightOf (payload s)) 0
           in \<lparr>box_x = x s, box_y = y s, box_w = w, box_h = h\<rparr>))"

definition center :: "BBox \<Rightarrow> real \<times> real" where
  "center A = (box_x A + box_w A / 2, box_y A + box_h A / 2)"

definition horizontalFirst :: "shape \<Rightarrow> shape \<Rightarrow> bool" where
  "horizontalFirst from to =
     (let centerA = center (getBBox from); centerB = center (getBBox to)
      in \<bar>fst centerA - fst centerB\<bar> > \<bar>snd centerA - snd centerB\<bar>)"

definition routeConnector :: "shape \<Rightarrow> shape \<Rightarrow> real list" where
  "routeConnector from to =
     (let start = center (getBBox from);
          end = center (getBBox to);
          via1 = (if horizontalFirst from to then (fst end, snd start) else (fst start, snd end))
      in [fst start, snd start, fst via1, snd via1, fst end, snd end])"

definition refreshConnectors :: "shape list \<Rightarrow> Editor \<Rightarrow> Editor" where
  "refreshConnectors nextShapes ed =
     setConnectors
       (map (\<lambda>c.
          case (find (\<lambda>s. sid s = fromId c) nextShapes, find (\<lambda>s. sid s = toId c) nextShapes) of
            (Some from, Some to) \<Rightarrow> c\<lparr>cpoints := routeConnector from to\<rparr>
          | _ \<Rightarrow> c))
       False ed"

subsection \<open>Grouping\<close>

text \<open>
  \<open>Math.min(...vs)\<close> and \<open>Math.max(...vs)\<close>. On an empty argument list
  JavaScript yields an infinity, which the real numbers do not have: the model
  returns \<open>None\<close> there.
\<close>

fun minOf :: "real list \<Rightarrow> real option" where
  "minOf [] = None"
| "minOf (v # vs) = Some (fold min vs v)"

fun maxOf :: "real list \<Rightarrow> real option" where
  "maxOf [] = None"
| "maxOf (v # vs) = Some (fold max vs v)"

text \<open>Decimal rendering of a length, as the template literal of the group name does.\<close>

fun natToString :: "nat \<Rightarrow> string" where
  "natToString n =
     (if n < 10 then [char_of (48 + n)]
      else natToString (n div 10) @ [char_of (48 + n mod 10)])"

declare natToString.simps [simp del]

text \<open>The right and bottom edges that \<open>groupSelected\<close> takes for a member.\<close>

definition groupRight :: "shape \<Rightarrow> real" where
  "groupRight s =
     (case payload s of
        RectShape w _ _ \<Rightarrow> x s + w
      | CircleShape r \<Rightarrow> x s + r
      | ImageShape _ w _ \<Rightarrow> x s + numOr w 300
      | _ \<Rightarrow> x s + 100)"

definition groupBottom :: "shape \<Rightarrow> real" where
  "groupBottom s =
     (case payload s of
        RectShape _ h _ \<Rightarrow> y s + h
      | CircleShape r \<Rightarrow> y s + r
      | ImageShape _ _ h \<Rightarrow> y s + numOr h 200
      | _ \<Rightarrow> y s + 100)"

text \<open>
  An operation ends with the next state or fails: with the \<open>TypeError\<close> of
  calling a method of \<open>undefined\<close>, or because a coordinate would be infinite.
\<close>

datatype Failure = TypeError | NotFinite

text \<open>
  The object \<open>group\<close> that \<open>groupSelected\<close> builds from the shape list, the
  selection and the identifier drawn by \<open>uuidv4()\<close>; none when no shape is
  selected, where its coordinates are infinite.
\<close>

definition newGroup :: "string \<Rightarrow> shape list \<Rightarrow> string list \<Rightarrow> shape option" where
  "newGroup newId shs sel =
     (let selectedShapes = filter (\<lambda>sh. sid sh \<in> set sel) shs
      in case (minOf (map x selectedShapes), minOf (map y selectedShapes),
               maxOf (map groupRight selectedShapes), maxOf (map groupBottom selectedShapes)) of
           (Some minX, Some minY, Some maxX, Some maxY) \<Rightarrow>
             Some \<lparr>sid = newId, x = minX, y = minY, rotation = None, fill = None,
                   stroke = None, strokeWidth = None, draggable = Some True,
                   opacity = None,
                   name = Some (''Group of '' @ natToString (length sel)),
                   groupId = None,
                   payload = GroupShape sel (Some (maxX - minX)) (Some (maxY - minY))\<rparr>
         | _ \<Rightarrow> None)"

definition groupSelected :: "string \<Rightarrow> Editor \<Rightarrow> Failure + Editor" where
  "groupSelected newId ed =
     (if length (selectedIds ed) < 2 then Inr ed
      else
        case shapesOf ed of
          None \<Rightarrow> Inl TypeError
        | Some shs \<Rightarrow>
            (case newGroup newId shs (selectedIds ed) of
               None \<Rightarrow> Inl NotFinite
             | Some grp \<Rightarrow>
                 (let ed1 = setShapes
                              (\<lambda>s. map (\<lambda>sh. if sid sh \<in> set (selectedIds ed)
                                               then sh\<lparr>groupId := Some newId\<rparr> else sh) s
                                   @ [grp])
                              False ed
                  in Inr (ed1\<lparr>selectedIds := [newId]\<rparr>))))"

definition ungroupSelected :: "Editor \<Rightarrow> Failure + Editor" where
  "ungroupSelected ed =
     (case selectedIds ed of
        [selectedId] \<Rightarrow>
          (case shapesOf ed of
             None \<Rightarrow> Inl TypeError
           | Some shs \<Rightarrow>
               (case find (\<lambda>s. sid s = selectedId) shs of
                  None \<Rightarrow> Inr ed
                | Some shape \<Rightarrow>
                    (case payload shape of
                       GroupShape childrenIds _ _ \<Rightarrow>
                         (let ed1 = setShapes
                                      (\<lambda>s. map (\<lambda>sh. if sid sh \<in> set childrenIds
                                                       then sh\<lparr>groupId := None\<rparr> else sh)
                                             (filter (\<lambda>sh. sid sh \<noteq> selectedId) s))
                                      False ed
                          in Inr (ed1\<lparr>selectedIds := childrenIds\<rparr>))
                     | _ \<Rightarrow> Inr ed)))
      | _ \<Rightarrow> Inr ed)"

subsection \<open>Alignment and distribution\<close>

datatype AlignMode = ModeLeft | ModeRight | ModeTop | ModeBottom | ModeHCenter | ModeVCenter

definition alignShape :: "AlignMode \<Rightarrow> real \<times> real \<Rightarrow> shape \<Rightarrow> shape" where
  "alignShape mode stage sh =
     (let width = fst stage; height = snd stage;
          shWidth = widthOf (payload sh); shHeight = heightOf (payload sh)
      in case mode of
           ModeLeft \<Rightarrow> sh\<lparr>x := 10\<rparr>
         | ModeRight \<Rightarrow>
             sh\<lparr>x := (if truthyNum shWidth then width - numOr shWidth 0 - 10 else width - 10)\<rparr>
         | ModeTop \<Rightarrow> sh\<lparr>y := 10\<rparr>
         | ModeBottom \<Rightarrow>
             sh\<lparr>y := (if truthyNum shHeight then height - numOr shHeight 0 - 10 else height - 10)\<rparr>
         | ModeHCenter \<Rightarrow> sh\<lparr>x := max 0 ((width - numOr shWidth 0) / 2)\<rparr>
         | ModeVCenter \<Rightarrow> sh\<lparr>y := max 0 ((height - numOr shHeight 0) / 2)\<rparr>)"

text \<open>
  \<open>alignSelected\<close> does not read the shape list itself; it hands \<open>setShapes\<close> the
  callback. The call of \<open>refreshConnectors\<close> in the body of the callback is an
  effect of calling it; the stored function is given by the list it returns.
\<close>

definition alignSelected :: "AlignMode \<Rightarrow> Editor \<Rightarrow> Editor" where
  "alignSelected mode ed =
     (if length (selectedIds ed) = 0 then ed
      else
        setShapes
          (\<lambda>s. map (\<lambda>sh. if sid sh \<notin> set (selectedIds ed) then sh
                           else alignShape mode (stageSize ed) sh) s)
          False ed)"

datatype Axis = H | V

fun findIndex :: "('a \<Rightarrow> bool) \<Rightarrow> 'a list \<Rightarrow> nat option" where
  "findIndex P [] = None"
| "findIndex P (b # bs) = (if P b then Some 0 else map_option Suc (findIndex P bs))"

definition axisPos :: "Axis \<Rightarrow> shape \<times> BBox \<Rightarrow> real" where
  "axisPos axis b = (if axis = H then box_x (snd b) else box_y (snd b))"

definition axisSize :: "Axis \<Rightarrow> shape \<times> BBox \<Rightarrow> real" where
  "axisSize axis b = (if axis = H then box_w (snd b) else box_h (snd b))"

text \<open>
  \<open>distribute\<close>. \<open>Array.prototype.sort\<close> is stable, and so is insertion by key
  (\<open>sort_key\<close>); the comparator \<open>a.x - b.x\<close> orders by the key.
\<close>

text \<open>The uniform gap computed from the sorted boxes.\<close>

definition distributeGaps :: "Axis \<Rightarrow> (shape \<times> BBox) list \<Rightarrow> real" where
  "distributeGaps axis boxes =
     (let first = boxes ! 0;
          lastBox = boxes ! (length boxes - 1);
          span = axisPos axis lastBox - axisPos axis first;
          sizes = map (axisSize axis) boxes;
          totalSize = fold (\<lambda>c a. a + c) sizes 0
      in (span - (totalSize - axisSize axis first)) / real (length boxes - 1))"

text \<open>The callback of \<open>all.map\<close>: what becomes of one shape of the canvas.\<close>

definition distributeShape :: "Axis \<Rightarrow> (shape \<times> BBox) list \<Rightarrow> real \<Rightarrow> shape \<Rightarrow> shape" where
  "distributeShape axis boxes gaps sh =
     (case findIndex (\<lambda>b. sid (fst b) = sid sh) boxes of
        None \<Rightarrow> sh
      | Some idx \<Rightarrow>
          if idx = 0 \<or> idx = length boxes - 1 then sh
          else
            let first = boxes ! 0;
                pos = fold (\<lambda>i pos. pos + (axisSize axis (boxes ! i) + gaps))
                        [1..<idx] (axisPos axis first + axisSize axis first)
            in if axis = H then sh\<lparr>x := pos\<rparr> else sh\<lparr>y := pos\<rparr>)"

definition distribute :: "Axis \<Rightarrow> Editor \<Rightarrow> Failure + Editor" where
  "distribute axis ed =
     (case shapesOf ed of
        None \<Rightarrow> Inl TypeError
      | Some shs \<Rightarrow>
          (let selected = filter (\<lambda>s. sid s \<in> set (selectedIds ed)) shs
           in if length selected < 3 then Inr ed
              else
                let boxes = map (\<lambda>s. (s, getBBox s)) selected;
                    sorted = sort_key (axisPos axis) boxes;
                    gaps = distributeGaps axis sorted
                in Inr (setShapes (\<lambda>all. map (distributeShape axis sorted gaps) all) False ed)))"

section \<open>SVG export (utils/svgExport.ts and exportSVG_Native)\<close>

text \<open>
  Strings are lists of code units below 256, read as Latin-1; code units from 256
  on are outside the model. On this range \<open>toLowerCase\<close> maps the letters A to Z
  and the capital letters U+00C0 to U+00DE other than the multiplication sign
  U+00D7, each to the code unit 32 above it, and \<open>trim\<close> strips the code units
  9 to 13, the space and the no-break space U+00A0.
\<close>

definition replaceAll :: "char \<Rightarrow> string \<Rightarrow> string \<Rightarrow> string" where
  "replaceAll c r str = concat (map (\<lambda>d. if d = c then r else [d]) str)"

definition escapeXML :: "string \<Rightarrow> string" where
  "escapeXML str =
     (if str = [] then []
      else replaceAll (CHR 0x27) ''&apos;''
             (replaceAll (CHR 0x22) ''&quot;''
               (replaceAll (CHR ''>'') ''&gt;''
                 (replaceAll (CHR ''<'') ''&lt;''
                   (replaceAll (CHR ''&'') ''&amp;'' str)))))"

definition toLowerChar :: "char \<Rightarrow> char" where
  "toLowerChar c =
     (let n = (of_char c :: nat)
      in if (65 \<le> n \<and> n \<le> 90) \<or> (192 \<le> n \<and> n \<le> 222 \<and> n \<noteq> 215)
         then char_of (n + 32) else c)"

definition toLowerCase :: "string \<Rightarrow> string" where
  "toLowerCase str = map toLowerChar str"

definition isWhitespace :: "char \<Rightarrow> bool" where
  "isWhitespace c =
     (let n = (of_char c :: nat)
      in n = 9 \<or> n = 10 \<or> n = 11 \<or> n = 12 \<or> n = 13 \<or> n = 32 \<or> n = 160)"

definition trim :: "string \<Rightarrow> string" where
  "trim str = rev (dropWhile isWhitespace (rev (dropWhile isWhitespace str)))"

definition startsWith :: "string \<Rightarrow> string \<Rightarrow> bool" where
  "startsWith str p = (take (length p) str = p)"

definition sanitizeURL :: "string \<Rightarrow> string" where
  "sanitizeURL url =
     (if url = [] then []
      else
        let lowercaseURL = trim (toLowerCase url)
        in if startsWith lowercaseURL ''javascript:''
              \<or> startsWith lowercaseURL ''data:text/html''
              \<or> startsWith lowercaseURL ''vbscript:''
           then []
           else escapeXML url)"

text \<open>
  \<open>formatNumber\<close> with its default of two decimals. \<open>Math.round\<close> rounds half up;
  the rendering of the rounded number by \<open>toString\<close> is the parameter
  \<open>numToString\<close>.
\<close>

definition formatNumber :: "(real \<Rightarrow> string) \<Rightarrow> real \<Rightarrow> string" where
  "formatNumber numToString num = numToString (of_int \<lfloor>num * 100 + 1 / 2\<rfloor> / 100)"

definition isDigit :: "char \<Rightarrow> bool" where
  "isDigit c = (let n = (of_char c :: nat) in 48 \<le> n \<and> n \<le> 57)"

text \<open>\<open>color.match(/\d+/g)\<close>: the maximal runs of digits, left to right.\<close>

fun digitRuns :: "string \<Rightarrow> string \<Rightarrow> string list" where
  "digitRuns cur [] = (if cur = [] then [] else [cur])"
| "digitRuns cur (c # cs) =
     (if isDigit c then digitRuns (cur @ [c]) cs
      else if cur = [] then digitRuns [] cs
      else cur # digitRuns [] cs)"

definition parseInt :: "string \<Rightarrow> nat" where
  "parseInt ds = fold (\<lambda>c n. 10 * n + (of_char c - 48)) ds 0"

fun toHex :: "nat \<Rightarrow> string" where
  "toHex n =
     (let d = (\<lambda>k. if k < 10 then char_of (48 + k) else char_of (87 + k))
      in if n < 16 then [d n] else toHex (n div 16) @ [d (n mod 16)])"

declare toHex.simps [simp del]

definition padStart2 :: "string \<Rightarrow> string" where
  "padStart2 str = replicate (2 - length str) (CHR ''0'') @ str"

definition normalizeColor :: "string option \<Rightarrow> string" where
  "normalizeColor color =
     (case color of
        None \<Rightarrow> ''none''
      | Some col \<Rightarrow>
          if col = [] then ''none''
          else if startsWith col ''#'' then col
          else
            let match = digitRuns [] col
            in if startsWith col ''rgb'' \<and> length match \<ge> 3
               then ''#'' @ padStart2 (toHex (parseInt (match ! 0)))
                        @ padStart2 (toHex (parseInt (match ! 1)))
                        @ padStart2 (toHex (parseInt (match ! 2)))
               else escapeXML col)"

definition dq :: string where
  "dq = [CHR 0x22]"

definition join :: "string \<Rightarrow> string list \<Rightarrow> string" where
  "join sep strs = (case strs of [] \<Rightarrow> [] | a # rest \<Rightarrow> a @ concat (map (\<lambda>b. sep @ b) rest))"

definition strOr :: "string option \<Rightarrow> string \<Rightarrow> string" where
  "strOr v d = (case v of None \<Rightarrow> d | Some str \<Rightarrow> if str = [] then d else str)"

text \<open>
  The lines that one pass of the loop over the shapes pushes onto \<open>content\<close>
  for a shape that is not skipped: one line, or none for an image whose source is
  rejected.
\<close>

definition shapeContent :: "(real \<Rightarrow> string) \<Rightarrow> shape \<Rightarrow> string list" where
  "shapeContent numToString s =
     (let fmt = formatNumber numToString;
          rot = numOr (rotation s) 0;
          transform = (if rot \<noteq> 0
                       then '' transform='' @ dq @ ''rotate('' @ fmt rot @ '' '' @ fmt (x s)
                            @ '' '' @ fmt (y s) @ '')'' @ dq
                       else []);
          strokeAttr = (if truthyStr (stroke s)
                        then '' stroke='' @ dq @ normalizeColor (stroke s) @ dq
                             @ '' stroke-width='' @ dq @ fmt (numOr (strokeWidth s) 1) @ dq
                        else []);
          fillAttr = (if truthyStr (fill s)
                      then '' fill='' @ dq @ normalizeColor (fill s) @ dq
                      else '' fill='' @ dq @ ''none'' @ dq);
          opacityAttr = (case opacity s of
                           None \<Rightarrow> []
                         | Some op \<Rightarrow> if op \<noteq> 0 \<and> op < 1
                                      then '' opacity='' @ dq @ fmt op @ dq else [])
      in case payload s of
           RectShape w h cr \<Rightarrow>
             [''<rect x='' @ dq @ fmt (x s) @ dq @ '' y='' @ dq @ fmt (y s) @ dq @ '' ''
              @ ''width='' @ dq @ fmt w @ dq @ '' height='' @ dq @ fmt h @ dq @ '' ''
              @ ''rx='' @ dq @ fmt (numOr cr 0) @ dq
              @ fillAttr @ strokeAttr @ opacityAttr @ transform @ ''/>'']
         | CircleShape r \<Rightarrow>
             [''<circle cx='' @ dq @ fmt (x s) @ dq @ '' cy='' @ dq @ fmt (y s) @ dq @ '' ''
              @ ''r='' @ dq @ fmt r @ dq
              @ fillAttr @ strokeAttr @ opacityAttr @ transform @ ''/>'']
         | TextShape txt fontSize _ al \<Rightarrow>
             (let anchor = (case al of
                              None \<Rightarrow> []
                            | Some a \<Rightarrow> '' text-anchor='' @ dq
                                @ (if a = AlignCenter then ''middle''
                                   else if a = AlignRight then ''end'' else ''start'') @ dq)
              in [''<text x='' @ dq @ fmt (x s) @ dq @ '' y='' @ dq
                  @ fmt (y s + numOr fontSize 24) @ dq @ '' ''
                  @ ''font-size='' @ dq @ fmt (numOr fontSize 24) @ dq @ '' ''
                  @ ''fill='' @ dq @ normalizeColor (Some (strOr (fill s) ''#0f172a'')) @ dq
                  @ anchor @ opacityAttr @ transform @ ''>'' @ escapeXML txt @ ''</text>''])
         | LineShape pts _ _ \<Rightarrow>
             [''<polyline points='' @ dq @ join '','' (map fmt pts) @ dq @ '' fill='' @ dq
              @ ''none'' @ dq @ '' ''
              @ ''stroke='' @ dq @ normalizeColor (Some (strOr (stroke s) ''#000'')) @ dq @ '' ''
              @ ''stroke-width='' @ dq @ fmt (numOr (strokeWidth s) 1) @ dq
              @ opacityAttr @ transform @ ''/>'']
         | ArrowShape pts _ _ \<Rightarrow>
             [''<polyline points='' @ dq @ join '','' (map fmt pts) @ dq @ '' fill='' @ dq
              @ ''none'' @ dq @ '' ''
              @ ''stroke='' @ dq @ normalizeColor (Some (strOr (stroke s) ''#000'')) @ dq @ '' ''
              @ ''stroke-width='' @ dq @ fmt (numOr (strokeWidth s) 1) @ dq @ '' ''
              @ ''marker-end='' @ dq @ ''url(#arrowhead)'' @ dq
              @ opacityAttr @ transform @ ''/>'']
         | ImageShape source iw ih \<Rightarrow>
             (let w = numOr iw 300; h = numOr ih 200; safeSrc = sanitizeURL source
              in if safeSrc \<noteq> []
                 then [''<image href='' @ dq @ safeSrc @ dq @ '' x='' @ dq @ fmt (x s) @ dq
                       @ '' y='' @ dq @ fmt (y s) @ dq @ '' ''
                       @ ''width='' @ dq @ fmt w @ dq @ '' height='' @ dq @ fmt h @ dq
                       @ opacityAttr @ transform @ ''/>'']
                 else [])
         | GroupShape _ gw gh \<Rightarrow>
             [''<rect x='' @ dq @ fmt (x s) @ dq @ '' y='' @ dq @ fmt (y s) @ dq @ '' ''
              @ ''width='' @ dq @ fmt (numOr gw 100) @ dq @ '' height='' @ dq
              @ fmt (numOr gh 100) @ dq @ '' ''
              @ ''fill='' @ dq @ ''rgba(59, 130, 246, 0.05)'' @ dq @ '' stroke='' @ dq
              @ ''#94a3b8'' @ dq @ '' stroke-width='' @ dq @ ''1'' @ dq
              @ '' stroke-dasharray='' @ dq @ ''8,4'' @ dq
              @ opacityAttr @ transform @ ''/>''])"

definition connectorContent :: "(real \<Rightarrow> string) \<Rightarrow> Connector \<Rightarrow> string" where
  "connectorContent numToString c =
     (let fmt = formatNumber numToString
      in ''<polyline points='' @ dq @ join '','' (map fmt (cpoints c)) @ dq @ '' fill='' @ dq
         @ ''none'' @ dq @ '' ''
         @ ''stroke='' @ dq @ normalizeColor (Some (strOr (cstroke c) ''#0f172a'')) @ dq @ '' ''
         @ ''stroke-width='' @ dq @ fmt (numOr (cstrokeWidth c) 2) @ dq @ '' ''
         @ ''marker-end='' @ dq @ ''url(#arrowhead)'' @ dq @ ''/>'')"

text \<open>
  The array \<open>content\<close> that \<open>exportSVG_Native\<close> builds and hands to
  \<open>createSVG\<close>: the lines of the shapes that belong to no group, in order, then
  one line for each connector.
\<close>

definition exportContent :: "(real \<Rightarrow> string) \<Rightarrow> CanvasState \<Rightarrow> string list" where
  "exportContent numToString cs =
     concat (map (\<lambda>s. if truthyStr (groupId s) then [] else shapeContent numToString s)
               (shapes cs))
     @ map (connectorContent numToString) (connectors cs)"

section \<open>Loading a project (loadJSON)\<close>

datatype json =
    JNull
  | JBool bool
  | JNumber real
  | JString string
  | JArray "json list"
  | JObject "(string \<times> json) list"

fun truthy :: "json \<Rightarrow> bool" where
  "truthy JNull = False"
| "truthy (JBool b) = b"
| "truthy (JNumber n) = (n \<noteq> 0)"
| "truthy (JString str) = (str \<noteq> [])"
| "truthy (JArray _) = True"
| "truthy (JObject _) = True"

text \<open>
  Reading one of the project's keys off a parsed value other than \<open>null\<close>;
  \<open>None\<close> is \<open>undefined\<close>. Only an object has such a property.
\<close>

fun getProp :: "json \<Rightarrow> string \<Rightarrow> json option" where
  "getProp (JObject kvs) k = map_of kvs k"
| "getProp _ k = None"

definition orElse :: "json option \<Rightarrow> json \<Rightarrow> json" where
  "orElse v d = (case v of None \<Rightarrow> d | Some j \<Rightarrow> if truthy j then j else d)"

definition toBool :: "json option \<Rightarrow> bool" where
  "toBool v = (case v of None \<Rightarrow> False | Some j \<Rightarrow> truthy j)"

text \<open>
  \<open>loadJSON\<close> stores the parsed values as they are, without checking them against
  the shape types, so on this path the document state holds JSON values.
\<close>

record LoadedCanvas =
  loadedShapes :: "json list"
  loadedConnectors :: json

record Project =
  projectHistory :: "LoadedCanvas HistoryState"
  bg :: json
  projectStageSize :: json
  showGrid :: bool
  gridSize :: json
  snapEnabled :: bool

datatype Alert = NotASavedProject | CouldNotLoad

text \<open>
  The \<open>onload\<close> handler of \<open>loadJSON\<close>. Its first argument is the outcome of
  \<open>JSON.parse\<close> on the file's text, \<open>None\<close> when parsing throws; the result is
  the next state and the alert shown, if any.
\<close>

definition loadJSON :: "json option \<Rightarrow> Project \<Rightarrow> Project \<times> Alert option" where
  "loadJSON parseResult st =
     (case parseResult of
        None \<Rightarrow> (st, Some CouldNotLoad)
      | Some JNull \<Rightarrow> (st, Some CouldNotLoad)
      | Some parsed \<Rightarrow>
          (case getProp parsed ''__shapes'' of
             Some (JArray shs) \<Rightarrow>
               (let st1 = st\<lparr>projectHistory :=
                              reset \<lparr>loadedShapes = shs,
                                     loadedConnectors =
                                       orElse (getProp parsed ''__connectors'') (JArray [])\<rparr>
                                (projectHistory st)\<rparr>;
                    st2 = st1\<lparr>bg := orElse (getProp parsed ''__bg'') (JString ''#ffffff'')\<rparr>;
                    st3 = st2\<lparr>projectStageSize :=
                               orElse (getProp parsed ''__size'')
                                 (JObject [(''width'', JNumber 1200), (''height'', JNumber 800)])\<rparr>;
                    st4 = (case getProp parsed ''__grid'' of
                             None \<Rightarrow> st3
                           | Some grid \<Rightarrow>
                               if truthy grid
                               then st3\<lparr>showGrid := toBool (getProp grid ''showGrid''),
                                        gridSize := orElse (getProp grid ''gridSize'') (JNumber 20),
                                        snapEnabled := toBool (getProp grid ''snapEnabled'')\<rparr>
                               else st3)
                in (st4, None))
           | _ \<Rightarrow> (st, Some NotASavedProject)))"

section \<open>Derived operations and example scenes\<close>

text \<open>Grouping with a given new identifier, then ungrouping straight away.\<close>

definition groupThenUngroup :: "string \<Rightarrow> Editor \<Rightarrow> Failure + Editor" where
  "groupThenUngroup newId ed =
     (case groupSelected newId ed of Inl e \<Rightarrow> Inl e | Inr ed1 \<Rightarrow> ungroupSelected ed1)"

text \<open>
  The shape list that the function stored as present returns when it is called
  with a canvas; none when the present is a canvas. Nothing in the hook makes this
  call: the function only serves to say which function is stored.
\<close>

definition updaterResult :: "CanvasState \<Rightarrow> Editor \<Rightarrow> shape list option" where
  "updaterResult c ed =
     (case present (history ed) of Updater f \<Rightarrow> Some (shapes (f c)) | Canvas _ \<Rightarrow> None)"

text \<open>The shapes of a list whose identifier is selected, in the order of the list.\<close>

definition selectedOf :: "string list \<Rightarrow> shape list \<Rightarrow> shape list" where
  "selectedOf sel shs = filter (\<lambda>sh. sid sh \<in> set sel) shs"

text \<open>A shape with only the required fields set.\<close>

definition plainShape :: "string \<Rightarrow> real \<Rightarrow> real \<Rightarrow> Payload \<Rightarrow> shape" where
  "plainShape i px py p =
     \<lparr>sid = i, x = px, y = py, rotation = None, fill = None, stroke = None,
      strokeWidth = None, draggable = None, opacity = None, name = None,
      groupId = None, payload = p\<rparr>"

definition canvasOf :: "shape list \<Rightarrow> CanvasState" where
  "canvasOf shs = \<lparr>shapes = shs, connectors = []\<rparr>"

text \<open>An editor whose present is a canvas of the given shapes, with a selection.\<close>

definition sceneOf :: "shape list \<Rightarrow> string list \<Rightarrow> Editor" where
  "sceneOf shs sel =
     \<lparr>history = \<lparr>past = [], present = Canvas (canvasOf shs), future = []\<rparr>,
      selectedIds = sel, stageSize = (1200, 800)\<rparr>"

text \<open>
  Three rectangles of width 10 at x = 0, 50 and 100, evenly spaced with gaps of 40.
\<close>

definition threeRects :: "shape list" where
  "threeRects =
     [plainShape ''a'' 0 0 (RectShape 10 10 None),
      plainShape ''b'' 50 0 (RectShape 10 10 None),
      plainShape ''c'' 100 0 (RectShape 10 10 None)]"

text \<open>The three rectangles with the first and the last selected.\<close>

definition flatScene :: Editor where
  "flatScene = sceneOf threeRects [''a'', ''c'']"

text \<open>The three rectangles, all selected.\<close>

definition evenScene :: Editor where
  "evenScene = sceneOf threeRects [''a'', ''b'', ''c'']"

text \<open>A rectangle of 10 by 10 at (0, 0) and a text without a width at (20, 0).\<close>

definition labelShapes :: "shape list" where
  "labelShapes =
     [plainShape ''r'' 0 0 (RectShape 10 10 None),
      plainShape ''t'' 20 0 (TextShape ''label'' None None None)]"

text \<open>
  The union of a list of boxes: the least left and top edges, the greatest right
  and bottom edges; none for the empty list.
\<close>

definition unionBox :: "BBox list \<Rightarrow> BBox option" where
  "unionBox bs =
     (case (minOf (map box_x bs), minOf (map box_y bs),
            maxOf (map (\<lambda>b. box_x b + box_w b) bs), maxOf (map (\<lambda>b. box_y b + box_h b) bs)) of
        (Some minX, Some minY, Some maxX, Some maxY) \<Rightarrow>
          Some \<lparr>box_x = minX, box_y = minY, box_w = maxX - minX, box_h = maxY - minY\<rparr>
      | _ \<Rightarrow> None)"

text \<open>
  The box of a member as grouping sizes it: a rectangle by its width and height, an
  image by its width and height with 300 by 200 where they are missing, a circle
  by its bounding box, and every other kind as 100 by 100 from its position.
\<close>

definition memberBox :: "shape \<Rightarrow> BBox" where
  "memberBox s =
     (case payload s of
        RectShape w h _ \<Rightarrow> \<lparr>box_x = x s, box_y = y s, box_w = w, box_h = h\<rparr>
      | CircleShape r \<Rightarrow> getBBox s
      | ImageShape _ w h \<Rightarrow> \<lparr>box_x = x s, box_y = y s, box_w = numOr w 300, box_h = numOr h 200\<rparr>
      | _ \<Rightarrow> \<lparr>box_x = x s, box_y = y s, box_w = 100, box_h = 100\<rparr>)"

text \<open>A polyline of points \<open>[x1, y1, x2, y2, \<dots>]\<close> with its points in reverse order.\<close>

fun reversePoints :: "real list \<Rightarrow> real list" where
  "reversePoints (px # py # rest) = reversePoints rest @ [px, py]"
| "reversePoints ps = ps"

text \<open>Two shapes that agree in every field other than \<open>x\<close> and \<open>y\<close>.\<close>

definition sameButPosition :: "shape \<Rightarrow> shape \<Rightarrow> bool" where
  "sameButPosition s s' = (s'\<lparr>x := x s, y := y s\<rparr> = s)"

text \<open>The scheme prefixes that \<open>sanitizeURL\<close> tests for.\<close>

definition denylist :: "string list" where
  "denylist = [''javascript:'', ''data:text/html'', ''vbscript:'']"

text \<open>A parsed document whose \<open>__shapes\<close> field is an array.\<close>

definition hasShapesArray :: "json \<Rightarrow> bool" where
  "hasShapesArray doc =
     (case getProp doc ''__shapes'' of Some (JArray _) \<Rightarrow> True | _ \<Rightarrow> False)"

text \<open>The state of a freshly started editor, as \<open>loadJSON\<close> sees it.\<close>

definition emptyProject :: Project where
  "emptyProject =
     \<lparr>projectHistory = \<lparr>past = [], present = \<lparr>loadedShapes = [], loadedConnectors = JArray []\<rparr>,
                         future = []\<rparr>,
      bg = JString ''#ffffff'',
      projectStageSize = JObject [(''width'', JNumber 1200), (''height'', JNumber 800)],
      showGrid = True, gridSize = JNumber 20, snapEnabled = True\<rparr>"

section \<open>Properties of the history manager\<close>

lemma present_setState [simp]: "present (setState v b h) = v"
  by (simp add: setState_def Let_def)

lemma redo_undo: "past h \<noteq> [] \<Longrightarrow> redo (undo h) = h"
  by (simp add: undo_def redo_def)

lemma past_undo_funpow: "past ((undo ^^ n) h) = take (length (past h) - n) (past h)"
proof (induction n)
  case 0
  show ?case by simp
next
  case (Suc n)
  show ?case
  proof (cases "length (past h) \<le> n")
    case True
    with Suc show ?thesis by (simp add: undo_def)
  next
    case False
    then have "butlast (take (length (past h) - n) (past h)) = take (length (past h) - Suc n) (past h)"
      by (simp add: butlast_take)
    with Suc False show ?thesis by (simp add: undo_def)
  qed
qed

lemma redo_undo_funpow:
  "n \<le> length (past h) \<Longrightarrow> (redo ^^ n) ((undo ^^ n) h) = h"
proof (induction n)
  case 0
  show ?case by simp
next
  case (Suc n)
  then have ne: "past ((undo ^^ n) h) \<noteq> []"
    by (cases "past h") (auto simp: past_undo_funpow)
  have "(redo ^^ Suc n) ((undo ^^ Suc n) h) = (redo ^^ n) (redo (undo ((undo ^^ n) h)))"
    by (simp add: funpow_swap1)
  also have "\<dots> = (redo ^^ n) ((undo ^^ n) h)"
    using ne by (simp add: redo_undo)
  also have "\<dots> = h"
    using Suc by simp
  finally show ?case .
qed

lemma length_past_setState:
  "length (past h) < MAX_HISTORY_LENGTH \<Longrightarrow> length (past (setState v False h)) = Suc (length (past h))"
  by (simp add: setState_def Let_def)

lemma length_past_setStates:
  "length (past h) + length vs \<le> MAX_HISTORY_LENGTH \<Longrightarrow>
   length (past (setStates vs h)) = length (past h) + length vs"
  unfolding setStates_def
proof (induction vs arbitrary: h)
  case Nil
  show ?case by simp
next
  case (Cons v vs)
  then have "length (past (setState v False h)) = Suc (length (past h))"
    by (simp add: length_past_setState)
  with Cons show ?case by simp
qed

lemma present_setStates: "vs \<noteq> [] \<Longrightarrow> present (setStates vs h) = last vs"
  unfolding setStates_def
  by (induction vs arbitrary: h) auto

text \<open>
  C1. Starting from a history with empty past and future, after N non-skipped
  \<open>setState\<close> calls (N at most the history bound), N undos followed by N redos
  give back the history as it was after the N-th call; in particular the present
  is the value of the N-th call again.
\<close>

theorem undo_redo_round_trip:
  assumes "past h = []" and "future h = []" and "length vs \<le> MAX_HISTORY_LENGTH"
  shows "(redo ^^ length vs) ((undo ^^ length vs) (setStates vs h)) = setStates vs h
       \<and> present ((redo ^^ length vs) ((undo ^^ length vs) (setStates vs h)))
           = present (setStates vs h)"
proof -
  have "length (past (setStates vs h)) = length vs"
    using assms length_past_setStates [of h vs] by simp
  then have "(redo ^^ length vs) ((undo ^^ length vs) (setStates vs h)) = setStates vs h"
    by (simp add: redo_undo_funpow)
  then show ?thesis by simp
qed

theorem undo_redo_round_trip_witness:
  "present ((redo ^^ length [1, 2, 3 :: nat])
              ((undo ^^ length [1, 2, 3 :: nat])
                 (setStates [1, 2, 3 :: nat] \<lparr>past = [], present = 0, future = []\<rparr>))) = 3"
proof -
  have h1: "past \<lparr>past = [], present = 0 :: nat, future = []\<rparr> = []" by simp
  have h2: "future \<lparr>past = [], present = 0 :: nat, future = []\<rparr> = []" by simp
  have h3: "length [1, 2, 3 :: nat] \<le> MAX_HISTORY_LENGTH" by (simp add: MAX_HISTORY_LENGTH_def)
  have "present ((redo ^^ length [1, 2, 3 :: nat])
              ((undo ^^ length [1, 2, 3 :: nat])
                 (setStates [1, 2, 3 :: nat] \<lparr>past = [], present = 0, future = []\<rparr>)))
        = present (setStates [1, 2, 3 :: nat] \<lparr>past = [], present = 0, future = []\<rparr>)"
    using undo_redo_round_trip [OF h1 h2 h3] by (rule conjunct2)
  also have "\<dots> = 3"
    by (simp add: present_setStates)
  finally show ?thesis .
qed

text \<open>
  C2. A non-skipped \<open>setState\<close> puts the old present on top of \<open>past\<close> (below it is
  the old past, without its oldest entry when the bound was reached), makes the
  new value the present and leaves \<open>future\<close> empty; a skipped one replaces the
  present and nothing else.
\<close>

theorem setState_contract:
  "last (past (setState v False h)) = present h
   \<and> butlast (past (setState v False h))
       = (if length (past h) < MAX_HISTORY_LENGTH then past h else tl (past h))
   \<and> present (setState v False h) = v
   \<and> future (setState v False h) = []
   \<and> past (setState v True h) = past h
   \<and> present (setState v True h) = v
   \<and> future (setState v True h) = future h"
proof -
  have "past h \<noteq> []" if "\<not> length (past h) < MAX_HISTORY_LENGTH"
    using that by (auto simp: MAX_HISTORY_LENGTH_def)
  then show ?thesis
    by (auto simp: setState_def Let_def)
qed

theorem setState_contract_witness:
  "last (past (setState (7 :: nat) False \<lparr>past = [1, 2], present = 3, future = [4]\<rparr>)) = 3
   \<and> butlast (past (setState (7 :: nat) False \<lparr>past = [1, 2], present = 3, future = [4]\<rparr>))
       = [1, 2]
   \<and> present (setState (7 :: nat) False \<lparr>past = [1, 2], present = 3, future = [4]\<rparr>) = 7
   \<and> future (setState (7 :: nat) False \<lparr>past = [1, 2], present = 3, future = [4]\<rparr>) = []
   \<and> setState (7 :: nat) True \<lparr>past = [1, 2], present = 3, future = [4]\<rparr>
       = \<lparr>past = [1, 2], present = 7, future = [4]\<rparr>"
proof -
  have small: "length (past \<lparr>past = [1, 2], present = 3 :: nat, future = [4]\<rparr>) < MAX_HISTORY_LENGTH"
    by (simp add: MAX_HISTORY_LENGTH_def)
  show ?thesis
    using setState_contract [of 7 "\<lparr>past = [1, 2], present = 3 :: nat, future = [4]\<rparr>"] small
    by (simp add: HistoryState.equality)
qed

section \<open>Properties of the stored updater\<close>

lemma present_setShapes:
  "present (history (setShapes f b ed)) = Updater (\<lambda>prev. prev\<lparr>shapes := f (shapes prev)\<rparr>)"
  by (simp add: setShapes_def)

lemma shapesOf_setShapes [simp]: "shapesOf (setShapes f b ed) = None"
  by (simp add: shapesOf_def present_setShapes)

lemma updaterResult_setShapes [simp]: "updaterResult c (setShapes f b ed) = Some (f (shapes c))"
  by (simp add: updaterResult_def present_setShapes)

lemma selectedIds_setShapes [simp]: "selectedIds (setShapes f b ed) = selectedIds ed"
  by (simp add: setShapes_def)

lemma shapesOf_selectedIds_update [simp]: "shapesOf (ed\<lparr>selectedIds := sel\<rparr>) = shapesOf ed"
  by (simp add: shapesOf_def)

lemma updaterResult_selectedIds_update [simp]:
  "updaterResult c (ed\<lparr>selectedIds := sel\<rparr>) = updaterResult c ed"
  by (simp add: updaterResult_def)

lemma shapesOf_sceneOf [simp]: "shapesOf (sceneOf shs sel) = Some shs"
  by (simp add: shapesOf_def sceneOf_def canvasOf_def)

lemma selectedIds_sceneOf [simp]: "selectedIds (sceneOf shs sel) = sel"
  by (simp add: sceneOf_def)

section \<open>Properties of grouping\<close>

lemma minOf_Some: "vs \<noteq> [] \<Longrightarrow> \<exists>m. minOf vs = Some m"
  by (cases vs) auto

lemma maxOf_Some: "vs \<noteq> [] \<Longrightarrow> \<exists>m. maxOf vs = Some m"
  by (cases vs) auto

text \<open>The group object that is built when at least one selected identifier is a shape's.\<close>

lemma newGroup_unfold:
  assumes "\<exists>sh \<in> set shs. sid sh \<in> set sel"
  shows "\<exists>minX minY maxX maxY.
           minOf (map x (selectedOf sel shs)) = Some minX
         \<and> minOf (map y (selectedOf sel shs)) = Some minY
         \<and> maxOf (map groupRight (selectedOf sel shs)) = Some maxX
         \<and> maxOf (map groupBottom (selectedOf sel shs)) = Some maxY
         \<and> newGroup newId shs sel =
             Some \<lparr>sid = newId, x = minX, y = minY, rotation = None, fill = None,
                   stroke = None, strokeWidth = None, draggable = Some True,
                   opacity = None,
                   name = Some (''Group of '' @ natToString (length sel)),
                   groupId = None,
                   payload = GroupShape sel (Some (maxX - minX)) (Some (maxY - minY))\<rparr>"
proof -
  let ?sel = "selectedOf sel shs"
  from assms have ne: "?sel \<noteq> []"
    by (auto simp: selectedOf_def filter_empty_conv)
  obtain minX where a: "minOf (map x ?sel) = Some minX"
    using ne minOf_Some [of "map x ?sel"] by auto
  obtain minY where b: "minOf (map y ?sel) = Some minY"
    using ne minOf_Some [of "map y ?sel"] by auto
  obtain maxX where c: "maxOf (map groupRight ?sel) = Some maxX"
    using ne maxOf_Some [of "map groupRight ?sel"] by auto
  obtain maxY where d: "maxOf (map groupBottom ?sel) = Some maxY"
    using ne maxOf_Some [of "map groupBottom ?sel"] by auto
  have "newGroup newId shs sel =
             Some \<lparr>sid = newId, x = minX, y = minY, rotation = None, fill = None,
                   stroke = None, strokeWidth = None, draggable = Some True,
                   opacity = None,
                   name = Some (''Group of '' @ natToString (length sel)),
                   groupId = None,
                   payload = GroupShape sel (Some (maxX - minX)) (Some (maxY - minY))\<rparr>"
    using a b c d unfolding newGroup_def Let_def selectedOf_def by simp
  with a b c d show ?thesis by blast
qed

text \<open>
  After a successful \<open>groupSelected\<close> the present is the stored function, so the
  shape list reads as \<open>undefined\<close> and \<open>ungroupSelected\<close> fails on it.
\<close>

lemma groupThenUngroup_throws:
  assumes "shapesOf ed = Some shs" and "length (selectedIds ed) \<ge> 2"
    and "\<exists>sh \<in> set shs. sid sh \<in> set (selectedIds ed)"
  shows "groupThenUngroup newId ed = Inl TypeError"
proof -
  from newGroup_unfold [OF assms(3), of newId]
  obtain grp where g: "newGroup newId shs (selectedIds ed) = Some grp"
    by blast
  have "groupSelected newId ed
          = Inr ((setShapes (\<lambda>s. map (\<lambda>sh. if sid sh \<in> set (selectedIds ed)
                                             then sh\<lparr>groupId := Some newId\<rparr> else sh) s @ [grp])
                    False ed)\<lparr>selectedIds := [newId]\<rparr>)"
    using assms(1,2) g by (simp add: groupSelected_def Let_def)
  then show ?thesis
    by (simp add: groupThenUngroup_def ungroupSelected_def)
qed

text \<open>
  C3 on the flat scene: three rectangles that belong to no group, the first and
  the last selected. \<open>groupSelected\<close> leaves the present a stored function, so no
  shape list can be read any more, and \<open>ungroupSelected\<close> straight after it fails
  with a \<open>TypeError\<close> instead of restoring the rectangles and the selection.
\<close>

theorem group_then_ungroup_flat_scene:
  "map_option (map groupId) (shapesOf flatScene) = Some [None, None, None]
   \<and> map_sum id shapesOf (groupSelected ''g'' flatScene) = Inr None
   \<and> map_sum id selectedIds (groupSelected ''g'' flatScene) = Inr [''g'']
   \<and> groupThenUngroup ''g'' flatScene = Inl TypeError"
proof -
  have g: "\<exists>grp. newGroup ''g'' threeRects [''a'', ''c''] = Some grp"
    using newGroup_unfold [of threeRects "[''a'', ''c'']" "''g''"]
    by (auto simp: threeRects_def plainShape_def)
  have a: "map_option (map groupId) (shapesOf flatScene) = Some [None, None, None]"
    by (simp add: flatScene_def threeRects_def plainShape_def)
  have b: "map_sum id shapesOf (groupSelected ''g'' flatScene) = Inr None"
    using g by (auto simp: flatScene_def groupSelected_def Let_def)
  have c: "map_sum id selectedIds (groupSelected ''g'' flatScene) = Inr [''g'']"
    using g by (auto simp: flatScene_def groupSelected_def Let_def)
  have d: "groupThenUngroup ''g'' flatScene = Inl TypeError"
    by (rule groupThenUngroup_throws [of _ threeRects])
       (simp_all add: flatScene_def threeRects_def plainShape_def)
  from a b c d show ?thesis by simp
qed

text \<open>
  The two callbacks, taken by themselves: marking the members and appending the
  group, then dropping the group and clearing the marks, gives back every shape
  with the \<open>groupId\<close> of the selected ones cleared.
\<close>

lemma unmark_after_mark:
  assumes "sid grp = newId" and "newId \<notin> sid ` set shs"
  shows "map (\<lambda>sh. if sid sh \<in> set sel then sh\<lparr>groupId := None\<rparr> else sh)
           (filter (\<lambda>sh. sid sh \<noteq> newId)
              (map (\<lambda>sh. if sid sh \<in> set sel then sh\<lparr>groupId := Some newId\<rparr> else sh) shs
               @ [grp]))
         = map (\<lambda>sh. if sid sh \<in> set sel then sh\<lparr>groupId := None\<rparr> else sh) shs"
proof -
  let ?mark = "\<lambda>sh. if sid sh \<in> set sel then sh\<lparr>groupId := Some newId\<rparr> else sh"
  have ids: "sid sh \<noteq> newId" if "sh \<in> set shs" for sh
    using that assms(2) by auto
  have m: "sid s \<noteq> newId" if "s \<in> set (map ?mark shs)" for s
  proof -
    from that have "s \<in> ?mark ` set shs"
      by (simp only: set_map)
    then obtain sh where "sh \<in> set shs" and "s = ?mark sh"
      by (rule imageE)
    then show ?thesis using ids [of sh] by (cases "sid sh \<in> set sel") simp_all
  qed
  have "filter (\<lambda>sh. sid sh \<noteq> newId) (map ?mark shs) = map ?mark shs"
    unfolding filter_id_conv using m by blast
  then have "filter (\<lambda>sh. sid sh \<noteq> newId) (map ?mark shs @ [grp]) = map ?mark shs"
    using assms(1) by simp
  then show ?thesis by simp
qed

lemma memberBox_noncircle:
  assumes "shapeType (payload s) \<noteq> Circle"
  shows "box_x (memberBox s) = x s" and "box_y (memberBox s) = y s"
    and "x s + box_w (memberBox s) = groupRight s"
    and "y s + box_h (memberBox s) = groupBottom s"
  using assms by (cases "payload s"; simp add: memberBox_def groupRight_def groupBottom_def)+

lemma unionBox_memberBox:
  assumes "\<forall>sh \<in> set shs. shapeType (payload sh) \<noteq> Circle"
    and "minOf (map x shs) = Some minX" and "minOf (map y shs) = Some minY"
    and "maxOf (map groupRight shs) = Some maxX" and "maxOf (map groupBottom shs) = Some maxY"
  shows "unionBox (map memberBox shs)
           = Some \<lparr>box_x = minX, box_y = minY, box_w = maxX - minX, box_h = maxY - minY\<rparr>"
proof -
  have a: "map box_x (map memberBox shs) = map x shs"
    using assms(1) by (simp add: memberBox_noncircle)
  have b: "map box_y (map memberBox shs) = map y shs"
    using assms(1) by (simp add: memberBox_noncircle)
  have c: "map (\<lambda>b. box_x b + box_w b) (map memberBox shs) = map groupRight shs"
    using assms(1) by (simp add: memberBox_noncircle)
  have d: "map (\<lambda>b. box_y b + box_h b) (map memberBox shs) = map groupBottom shs"
    using assms(1) by (simp add: memberBox_noncircle)
  show ?thesis
    unfolding unionBox_def a b c d using assms(2-5) by simp
qed

text \<open>
  C4, as the code has it. Let the shape list be readable, two or more identifiers
  be selected and at least one of them be the identifier of a shape. Then
  \<open>groupSelected\<close> builds one group shape with the new identifier that lists the
  selected identifiers, hands \<open>setShapes\<close> the callback that marks the selected
  shapes and appends the group, and selects the new identifier. When no selected
  shape is a circle, the group's position and size are those of the union of the
  members' boxes, each member sized as \<open>memberBox\<close> says.
\<close>

theorem groupSelected_geometry:
  assumes "shapesOf ed = Some shs"
    and "length (selectedIds ed) \<ge> 2"
    and "\<exists>sh \<in> set shs. sid sh \<in> set (selectedIds ed)"
  shows "\<exists>grp w h.
           newGroup newId shs (selectedIds ed) = Some grp
         \<and> groupSelected newId ed
             = Inr ((setShapes
                       (\<lambda>s. map (\<lambda>sh. if sid sh \<in> set (selectedIds ed)
                                       then sh\<lparr>groupId := Some newId\<rparr> else sh) s @ [grp])
                       False ed)\<lparr>selectedIds := [newId]\<rparr>)
         \<and> sid grp = newId
         \<and> payload grp = GroupShape (selectedIds ed) (Some w) (Some h)
         \<and> ((\<forall>sh \<in> set (selectedOf (selectedIds ed) shs). shapeType (payload sh) \<noteq> Circle)
              \<longrightarrow> unionBox (map memberBox (selectedOf (selectedIds ed) shs))
                    = Some \<lparr>box_x = x grp, box_y = y grp, box_w = w, box_h = h\<rparr>)"
proof -
  from newGroup_unfold [OF assms(3), of newId]
  obtain minX minY maxX maxY where
    a: "minOf (map x (selectedOf (selectedIds ed) shs)) = Some minX"
    and b: "minOf (map y (selectedOf (selectedIds ed) shs)) = Some minY"
    and c: "maxOf (map groupRight (selectedOf (selectedIds ed) shs)) = Some maxX"
    and d: "maxOf (map groupBottom (selectedOf (selectedIds ed) shs)) = Some maxY"
    and g: "newGroup newId shs (selectedIds ed) =
             Some \<lparr>sid = newId, x = minX, y = minY, rotation = None, fill = None,
                   stroke = None, strokeWidth = None, draggable = Some True,
                   opacity = None,
                   name = Some (''Group of '' @ natToString (length (selectedIds ed))),
                   groupId = None,
                   payload = GroupShape (selectedIds ed)
                               (Some (maxX - minX)) (Some (maxY - minY))\<rparr>"
    by blast
  have u: "unionBox (map memberBox (selectedOf (selectedIds ed) shs))
             = Some \<lparr>box_x = minX, box_y = minY, box_w = maxX - minX, box_h = maxY - minY\<rparr>"
    if "\<forall>sh \<in> set (selectedOf (selectedIds ed) shs). shapeType (payload sh) \<noteq> Circle"
    using unionBox_memberBox [OF that a b c d] .
  have r: "groupSelected newId ed
             = Inr ((setShapes
                       (\<lambda>s. map (\<lambda>sh. if sid sh \<in> set (selectedIds ed)
                                       then sh\<lparr>groupId := Some newId\<rparr> else sh) s
                            @ [\<lparr>sid = newId, x = minX, y = minY, rotation = None, fill = None,
                                stroke = None, strokeWidth = None, draggable = Some True,
                                opacity = None,
                                name = Some (''Group of ''
                                             @ natToString (length (selectedIds ed))),
                                groupId = None,
                                payload = GroupShape (selectedIds ed)
                                            (Some (maxX - minX)) (Some (maxY - minY))\<rparr>])
                       False ed)\<lparr>selectedIds := [newId]\<rparr>)"
    using assms(1,2) g by (simp add: groupSelected_def Let_def)
  show ?thesis
    unfolding g r using u by simp
qed

theorem groupSelected_geometry_witness:
  "map_option getBBox (newGroup ''g'' threeRects [''a'', ''c''])
     = Some \<lparr>box_x = 0, box_y = 0, box_w = 110, box_h = 10\<rparr>"
proof -
  have h1: "shapesOf flatScene = Some threeRects"
    by (simp add: flatScene_def)
  have sel: "selectedIds flatScene = [''a'', ''c'']"
    by (simp add: flatScene_def)
  have h2: "length (selectedIds flatScene) \<ge> 2"
    by (simp add: sel)
  have h3: "\<exists>sh \<in> set threeRects. sid sh \<in> set (selectedIds flatScene)"
    by (simp add: sel threeRects_def plainShape_def)
  have so: "selectedOf (selectedIds flatScene) threeRects
               = [plainShape ''a'' 0 0 (RectShape 10 10 None),
                  plainShape ''c'' 100 0 (RectShape 10 10 None)]"
    by (simp add: sel selectedOf_def threeRects_def plainShape_def)
  have h4: "\<forall>sh \<in> set (selectedOf (selectedIds flatScene) threeRects).
              shapeType (payload sh) \<noteq> Circle"
    by (simp add: so plainShape_def)
  have box: "unionBox (map memberBox (selectedOf (selectedIds flatScene) threeRects))
               = Some \<lparr>box_x = 0, box_y = 0, box_w = 110, box_h = 10\<rparr>"
    by (simp add: so plainShape_def memberBox_def unionBox_def)
  from groupSelected_geometry [OF h1 h2 h3, of "''g''"] h4
  obtain grp w h where n: "newGroup ''g'' threeRects (selectedIds flatScene) = Some grp"
    and p: "payload grp = GroupShape (selectedIds flatScene) (Some w) (Some h)"
    and u: "unionBox (map memberBox (selectedOf (selectedIds flatScene) threeRects))
              = Some \<lparr>box_x = x grp, box_y = y grp, box_w = w, box_h = h\<rparr>"
    by blast
  from u box have "x grp = 0" "y grp = 0" "w = 110" "h = 10"
    by simp_all
  with p have "getBBox grp = \<lparr>box_x = 0, box_y = 0, box_w = 110, box_h = 10\<rparr>"
    by (simp add: getBBox_def)
  with n show ?thesis
    by (simp add: sel)
qed

text \<open>
  C4 as worded fails for a rectangle of 10 by 10 at (0, 0) grouped with a text at
  (20, 0) that has no width: the union of their bounding boxes is the box
  (0, 0, 20, 10), and the group that is built has the box (0, 0, 120, 100),
  because a text counts as 100 by 100.
\<close>

theorem groupSelected_box_counterexample:
  "unionBox (map getBBox (selectedOf [''r'', ''t''] labelShapes))
     = Some \<lparr>box_x = 0, box_y = 0, box_w = 20, box_h = 10\<rparr>
   \<and> map_option getBBox (newGroup ''g'' labelShapes [''r'', ''t''])
     = Some \<lparr>box_x = 0, box_y = 0, box_w = 120, box_h = 100\<rparr>"
  by (simp add: labelShapes_def plainShape_def selectedOf_def unionBox_def getBBox_def
      newGroup_def Let_def groupRight_def groupBottom_def)

text \<open>
  A circle of radius 50 centred at (100, 100) grouped with a small rectangle at
  (200, 200): the circle's bounding box starts at 50, the group at 100.
\<close>

lemma newGroup_circle_scene:
  "map_option (box_x \<circ> getBBox)
     (newGroup ''g'' [plainShape ''c'' 100 100 (CircleShape 50),
                     plainShape ''r'' 200 200 (RectShape 10 10 None)] [''c'', ''r''])
     = Some 100
   \<and> box_x (getBBox (plainShape ''c'' 100 100 (CircleShape 50))) = 50"
  by (simp add: plainShape_def getBBox_def newGroup_def Let_def groupRight_def groupBottom_def)

section \<open>Properties of connector routing\<close>

lemma horizontalFirst_commute: "horizontalFirst a b = horizontalFirst b a"
  by (simp add: horizontalFirst_def Let_def abs_minus_commute)

text \<open>
  C6, as the code has it. With the centre of a shape the middle of its bounding
  box, a route is horizontal-first exactly when the centres' |dx| exceeds their
  |dy|, which is the same for both directions. The route from A to B starts at
  A's centre, ends at B's centre and bends at (B's x, A's y) when horizontal-first
  and at (A's x, B's y) otherwise: the first leg leaves the route's own start. So
  the route from B to A has the end points exchanged and its bend at the opposite
  corner of the rectangle spanned by the centres, and it is the reverse of the
  route from A to B only when the two centres coincide.
\<close>

theorem routeConnector_symmetry:
  "(let cxa = box_x (getBBox a) + box_w (getBBox a) / 2;
        cya = box_y (getBBox a) + box_h (getBBox a) / 2;
        cxb = box_x (getBBox b) + box_w (getBBox b) / 2;
        cyb = box_y (getBBox b) + box_h (getBBox b) / 2;
        hf = (\<bar>cxa - cxb\<bar> > \<bar>cya - cyb\<bar>)
    in horizontalFirst a b = hf
     \<and> horizontalFirst b a = hf
     \<and> routeConnector a b
         = [cxa, cya, if hf then cxb else cxa, if hf then cya else cyb, cxb, cyb]
     \<and> routeConnector b a
         = [cxb, cyb, if hf then cxa else cxb, if hf then cyb else cya, cxa, cya]
     \<and> (routeConnector b a = reversePoints (routeConnector a b)
          \<longleftrightarrow> cxa = cxb \<and> cya = cyb))
   \<and> length (routeConnector a b) = 6
   \<and> take 2 (routeConnector b a) = drop 4 (routeConnector a b)
   \<and> drop 4 (routeConnector b a) = take 2 (routeConnector a b)
   \<and> routeConnector b a ! 2
       = routeConnector a b ! 0 + routeConnector a b ! 4 - routeConnector a b ! 2
   \<and> routeConnector b a ! 3
       = routeConnector a b ! 1 + routeConnector a b ! 5 - routeConnector a b ! 3"
  by (auto simp add: routeConnector_def horizontalFirst_def center_def Let_def
      abs_minus_commute)

theorem routeConnector_symmetry_witness:
  "routeConnector (plainShape ''a'' 0 0 (RectShape 20 10 None))
                  (plainShape ''b'' 100 40 (RectShape 20 10 None))
     = [10, 5, 110, 5, 110, 45]
   \<and> routeConnector (plainShape ''b'' 100 40 (RectShape 20 10 None))
                    (plainShape ''a'' 0 0 (RectShape 20 10 None))
     = [110, 45, 10, 45, 10, 5]"
  using routeConnector_symmetry [of "plainShape ''a'' 0 0 (RectShape 20 10 None)"
                                    "plainShape ''b'' 100 40 (RectShape 20 10 None)"]
  by (simp add: Let_def getBBox_def plainShape_def)

text \<open>
  C6 as worded fails for two points at (0, 0) and (10, 4): the route from
  the first bends at (10, 0), the route from the second at (0, 4), so the second
  route is not the first one reversed.
\<close>

theorem routeConnector_reverse_counterexample:
  "routeConnector (plainShape ''a'' 0 0 (RectShape 0 0 None))
                  (plainShape ''b'' 10 4 (RectShape 0 0 None)) = [0, 0, 10, 0, 10, 4]
   \<and> routeConnector (plainShape ''b'' 10 4 (RectShape 0 0 None))
                    (plainShape ''a'' 0 0 (RectShape 0 0 None)) = [10, 4, 0, 4, 0, 0]
   \<and> reversePoints (routeConnector (plainShape ''a'' 0 0 (RectShape 0 0 None))
                                   (plainShape ''b'' 10 4 (RectShape 0 0 None)))
       = [10, 4, 10, 0, 0, 0]"
  by (simp add: routeConnector_def horizontalFirst_def center_def getBBox_def plainShape_def
      Let_def)

section \<open>Properties of alignment and distribution\<close>

lemma sameButPosition_refl [simp]: "sameButPosition s s"
  by (simp add: sameButPosition_def)

lemma sameButPosition_x [simp]: "sameButPosition s (s\<lparr>x := v\<rparr>)"
  by (simp add: sameButPosition_def)

lemma sameButPosition_y [simp]: "sameButPosition s (s\<lparr>y := v\<rparr>)"
  by (simp add: sameButPosition_def)

lemma sameButPosition_alignShape [simp]: "sameButPosition s (alignShape mode stage s)"
  by (cases mode) (simp_all add: alignShape_def Let_def)

lemma sameButPosition_distributeShape [simp]:
  "sameButPosition s (distributeShape axis srt gaps s)"
  by (simp add: distributeShape_def Let_def split: option.splits)

text \<open>
  The callbacks, taken by themselves, return a list of the same shapes in the same
  order with at most \<open>x\<close> and \<open>y\<close> changed.
\<close>

lemma alignSelected_callback_frame:
  "selectedIds ed \<noteq> [] \<Longrightarrow>
   \<exists>r. updaterResult c (alignSelected mode ed) = Some r \<and> list_all2 sameButPosition (shapes c) r"
  by (simp add: alignSelected_def list_all2_map2 list_all2_same)

lemma distribute_callback_frame:
  "distribute axis ed = Inr ed1 \<Longrightarrow> ed1 \<noteq> ed \<Longrightarrow>
   \<exists>r. updaterResult c ed1 = Some r \<and> list_all2 sameButPosition (shapes c) r"
  by (auto simp: distribute_def Let_def list_all2_map2 list_all2_same
      split: option.splits if_splits)

text \<open>What the program holds after the operations: a stored function, no shape list.\<close>

lemma alignSelected_undefined:
  "selectedIds ed \<noteq> [] \<Longrightarrow> shapesOf (alignSelected mode ed) = None"
  by (simp add: alignSelected_def)

lemma distribute_undefined:
  "shapesOf ed = Some shs \<Longrightarrow> length (selectedOf (selectedIds ed) shs) \<ge> 3 \<Longrightarrow>
   map_sum id shapesOf (distribute axis ed) = Inr None"
  by (simp add: distribute_def selectedOf_def Let_def)

text \<open>
  C10 on the even scene: three rectangles with the identifiers a, b and c, all
  selected. After \<open>alignSelected\<close> and after \<open>distribute\<close> the present is the
  stored function and the shape list reads as \<open>undefined\<close>: no list of the same
  length with the same identifiers is left.
\<close>

theorem align_distribute_even_scene:
  "map_option (map sid) (shapesOf evenScene) = Some [''a'', ''b'', ''c'']
   \<and> shapesOf (alignSelected ModeLeft evenScene) = None
   \<and> map_sum id shapesOf (distribute H evenScene) = Inr None"
proof -
  have a: "map_option (map sid) (shapesOf evenScene) = Some [''a'', ''b'', ''c'']"
    by (simp add: evenScene_def threeRects_def plainShape_def)
  have b: "shapesOf (alignSelected ModeLeft evenScene) = None"
    by (rule alignSelected_undefined) (simp add: evenScene_def)
  have c: "map_sum id shapesOf (distribute H evenScene) = Inr None"
    by (rule distribute_undefined [of _ threeRects])
       (simp_all add: evenScene_def selectedOf_def threeRects_def plainShape_def)
  from a b c show ?thesis by simp
qed

text \<open>With fewer than three selected shapes \<open>distribute\<close> does nothing.\<close>

lemma distribute_fewer_than_three:
  "shapesOf ed = Some shs \<Longrightarrow> length (selectedOf (selectedIds ed) shs) < 3 \<Longrightarrow>
   distribute axis ed = Inr ed"
  by (simp add: distribute_def selectedOf_def)

text \<open>The shapes found first and last in the sorted list stay as they are.\<close>

lemma distributeShape_anchor:
  "findIndex (\<lambda>b. sid (fst b) = sid sh) boxes = Some idx \<Longrightarrow>
   idx = 0 \<or> idx = length boxes - 1 \<Longrightarrow> distributeShape axis boxes gaps sh = sh"
  by (auto simp: distributeShape_def)

text \<open>
  C5 on the even scene: three rectangles of width 10 at x = 0, 50 and 100, with
  gaps of 40 between them. The callback that \<open>distribute\<close> hands to \<open>setShapes\<close>
  moves the middle one to x = 10, flush against the first: the gaps become 0 and
  80. The callback is stored as the present, so after \<open>distribute\<close> no shape list
  can be read at all.
\<close>

theorem distribute_even_scene:
  "map_option (map x) (shapesOf evenScene) = Some [0, 50, 100]
   \<and> map_sum id (map_option (map x) \<circ> updaterResult (canvasOf threeRects))
        (distribute H evenScene) = Inr (Some [0, 10, 100])
   \<and> map_sum id (map_option (map (box_w \<circ> getBBox)) \<circ> updaterResult (canvasOf threeRects))
        (distribute H evenScene) = Inr (Some [10, 10, 10])
   \<and> map_sum id shapesOf (distribute H evenScene) = Inr None"
  by (simp add: evenScene_def threeRects_def plainShape_def canvasOf_def distribute_def
      distributeShape_def distributeGaps_def getBBox_def axisPos_def axisSize_def Let_def)

section \<open>Properties of the export\<close>

lemma toLowerChar_whitespace: "isWhitespace c \<Longrightarrow> toLowerChar c = c"
  by (auto simp: isWhitespace_def toLowerChar_def Let_def)

text \<open>
  Trimming keeps a prefix that neither starts nor ends with white space, whatever
  white space precedes it and whatever follows it.
\<close>

lemma trim_prefix:
  assumes "p \<noteq> []" and "\<not> isWhitespace (hd p)" and "\<not> isWhitespace (last p)"
    and "\<forall>c \<in> set ws. isWhitespace c"
  shows "startsWith (trim (ws @ p @ rest)) p"
proof -
  have a: "dropWhile isWhitespace (ws @ p @ rest) = p @ rest"
    using assms(1,2,4) by (cases p) (simp_all add: dropWhile_append3)
  have b: "\<exists>t. rev (dropWhile isWhitespace (rev (p @ rest))) = p @ t"
  proof (cases "\<forall>c \<in> set rest. isWhitespace c")
    case True
    then have "dropWhile isWhitespace (rev rest @ rev p) = dropWhile isWhitespace (rev p)"
      by (intro dropWhile_append2) simp
    also have "\<dots> = rev p"
      using assms(1,3) by (cases "rev p") (auto simp: last_rev hd_rev)
    finally show ?thesis by simp
  next
    case False
    then obtain c where "c \<in> set (rev rest)" "\<not> isWhitespace c" by auto
    then have "dropWhile isWhitespace (rev rest @ rev p) = dropWhile isWhitespace (rev rest) @ rev p"
      by (simp add: dropWhile_append1)
    then show ?thesis by simp
  qed
  from b obtain t where "rev (dropWhile isWhitespace (rev (p @ rest))) = p @ t" ..
  then show ?thesis
    by (simp add: trim_def a startsWith_def)
qed

lemma sanitizeURL_blocks:
  assumes "\<forall>c \<in> set ws. isWhitespace c" and "toLowerCase pre \<in> set denylist"
  shows "sanitizeURL (ws @ pre @ rest) = []"
proof -
  let ?p = "toLowerCase pre"
  have low: "toLowerCase (ws @ pre @ rest) = ws @ ?p @ toLowerCase rest"
    using assms(1) by (simp add: toLowerCase_def toLowerChar_whitespace map_idI)
  have p: "?p \<noteq> [] \<and> \<not> isWhitespace (hd ?p) \<and> \<not> isWhitespace (last ?p)"
    using assms(2) by (auto simp: denylist_def isWhitespace_def)
  have "startsWith (trim (toLowerCase (ws @ pre @ rest))) ?p"
    unfolding low using p assms(1) by (intro trim_prefix) auto
  then show ?thesis
    using assms(2) by (auto simp: sanitizeURL_def Let_def denylist_def)
qed

lemma denylist_lower: "p \<in> set denylist \<Longrightarrow> toLowerCase p = p"
  by (auto simp: denylist_def toLowerCase_def toLowerChar_def)

lemma shapeContent_blocked_image:
  "payload s = ImageShape source w h \<Longrightarrow> sanitizeURL source = [] \<Longrightarrow> shapeContent f s = []"
  by (simp add: shapeContent_def Let_def)

text \<open>
  C7. An image whose source matches the denylist (one of the three scheme
  prefixes, in any letter case, possibly after white space) is given the empty
  string by \<open>sanitizeURL\<close>, and the export pushes no line for it: the exported
  content is the content of the canvas without that shape, so no \<open>href\<close> is
  emitted for it, neither empty nor escaped.
\<close>

theorem blocked_image_not_exported:
  assumes "payload s = ImageShape (ws @ pre @ rest) w h"
    and "\<forall>c \<in> set ws. isWhitespace c" and "toLowerCase pre \<in> set denylist"
  shows "sanitizeURL (ws @ pre @ rest) = []
       \<and> shapeContent numToString s = []
       \<and> exportContent numToString (cs\<lparr>shapes := before @ [s] @ after\<rparr>)
           = exportContent numToString (cs\<lparr>shapes := before @ after\<rparr>)"
proof -
  have b: "sanitizeURL (ws @ pre @ rest) = []"
    using assms(2,3) by (rule sanitizeURL_blocks)
  then have "shapeContent numToString s = []"
    using assms(1) by (rule shapeContent_blocked_image [rotated])
  with b show ?thesis by (simp add: exportContent_def)
qed

theorem blocked_image_not_exported_witness:
  "shapeContent (\<lambda>r. [])
     (plainShape ''i'' 0 0 (ImageShape ''javascript:alert(1)'' None None)) = []"
proof -
  have h1: "payload (plainShape ''i'' 0 0 (ImageShape ''javascript:alert(1)'' None None))
              = ImageShape ([] @ ''javascript:'' @ ''alert(1)'') None None"
    by (simp add: plainShape_def)
  have h2: "\<forall>c \<in> set []. isWhitespace c"
    by simp
  have h3: "toLowerCase ''javascript:'' \<in> set denylist"
    by (simp add: denylist_lower denylist_def)
  from blocked_image_not_exported [OF h1 h2 h3] show ?thesis by blast
qed

text \<open>
  C9. A URL that consists of white space as \<open>trim\<close> strips it, then a denylisted
  scheme prefix written in any mix of upper and lower case, then anything
  (trailing white space included), is blocked: \<open>sanitizeURL\<close> returns the empty
  string.
\<close>

theorem sanitizeURL_case_whitespace:
  assumes "\<forall>c \<in> set ws. isWhitespace c" and "toLowerCase pre \<in> set denylist"
  shows "sanitizeURL (ws @ pre @ rest) = []"
  using assms by (rule sanitizeURL_blocks)

theorem sanitizeURL_case_whitespace_witness:
  "sanitizeURL ''  JavaScript:alert(1)'' = []
   \<and> sanitizeURL (CHR 0xA0 # ''VBScript:msgbox(1) '') = []"
proof -
  have h1: "\<forall>c \<in> set ''  ''. isWhitespace c"
    by (simp add: isWhitespace_def)
  have "toLowerCase ''JavaScript:'' = ''javascript:''"
    by code_simp
  then have h2: "toLowerCase ''JavaScript:'' \<in> set denylist"
    by (simp add: denylist_def)
  have k1: "\<forall>c \<in> set [CHR 0xA0]. isWhitespace c"
    by (simp add: isWhitespace_def)
  have "toLowerCase ''VBScript:'' = ''vbscript:''"
    by code_simp
  then have k2: "toLowerCase ''VBScript:'' \<in> set denylist"
    by (simp add: denylist_def)
  from sanitizeURL_case_whitespace [OF h1 h2, of "''alert(1)''"]
    sanitizeURL_case_whitespace [OF k1 k2, of "''msgbox(1) ''"]
  show ?thesis by simp
qed

section \<open>Properties of loading\<close>

text \<open>
  C8. When the \<open>__shapes\<close> field of the parsed document is not an array, the state
  after \<open>loadJSON\<close> is the state before (history, background, stage size and grid
  settings alike) and an alert is shown.
\<close>

theorem loadJSON_rejects:
  assumes "\<not> hasShapesArray doc"
  shows "fst (loadJSON (Some doc) st) = st
       \<and> snd (loadJSON (Some doc) st) \<in> {Some NotASavedProject, Some CouldNotLoad}"
  using assms
  by (cases doc) (auto simp: loadJSON_def hasShapesArray_def split: option.splits json.splits)

theorem loadJSON_rejects_witness:
  "fst (loadJSON (Some (JObject [(''__shapes'', JString ''none''), (''__bg'', JString ''#000000'')]))
          emptyProject) = emptyProject
   \<and> snd (loadJSON (Some (JObject [(''__shapes'', JString ''none''), (''__bg'', JString ''#000000'')]))
          emptyProject) \<in> {Some NotASavedProject, Some CouldNotLoad}"
proof -
  have h: "\<not> hasShapesArray (JObject [(''__shapes'', JString ''none''), (''__bg'', JString ''#000000'')])"
    by (simp add: hasShapesArray_def)
  from loadJSON_rejects [OF h] show ?thesis .
qed

text \<open>A document with an array of shapes is loaded without an alert.\<close>

lemma loadJSON_accepts:
  "hasShapesArray doc \<Longrightarrow> snd (loadJSON (Some doc) st) = None"
  by (cases doc) (auto simp: loadJSON_def hasShapesArray_def Let_def split: option.splits json.splits)

text \<open>A text that does not parse changes nothing either.\<close>

lemma loadJSON_parse_error: "loadJSON None st = (st, Some CouldNotLoad)"
  by (simp add: loadJSON_def)

end
